theory Spec2Isabelle
  imports Complex_Main "HOL-Library.Sublist" "HOL-Library.Log_Nat" "HOL-Library.Char_ord"
    "HOL-Library.List_Lexorder"
begin

section \<open>Text\<close>

text \<open>
  A Python \<open>str\<close> is modelled as a \<open>string\<close>: each \<open>char\<close> stands for the code point
  of the same number, so the model covers text over the code points 0 to 255. Python's
  character classes and case mapping are written out for exactly these code points.
\<close>

definition code :: "char \<Rightarrow> nat" where
  "code c = of_char c"

definition is_ascii :: "char \<Rightarrow> bool" where
  "is_ascii c = (code c < 128)"

text \<open>\<open>\d\<close> of a \<open>str\<close> pattern: the decimal digits, which below 256 are \<open>0\<close> to \<open>9\<close>.\<close>

definition is_digit :: "char \<Rightarrow> bool" where
  "is_digit c = (48 \<le> code c \<and> code c \<le> 57)"

text \<open>\<open>\s\<close>, and the characters \<open>str.strip()\<close> removes: tab to carriage return, the four
  separators 0x1C to 0x1F, space, 0x85 and the no-break space.\<close>

definition is_space :: "char \<Rightarrow> bool" where
  "is_space c = (let n = code c in
     (9 \<le> n \<and> n \<le> 13) \<or> (28 \<le> n \<and> n \<le> 32) \<or> n = 133 \<or> n = 160)"

definition is_upper_ascii :: "char \<Rightarrow> bool" where
  "is_upper_ascii c = (65 \<le> code c \<and> code c \<le> 90)"

definition is_lower_ascii :: "char \<Rightarrow> bool" where
  "is_lower_ascii c = (97 \<le> code c \<and> code c \<le> 122)"

text \<open>\<open>\w\<close>: alphanumeric code points and the underscore. Below 256 these are the ASCII
  letters and digits, the underscore, the Latin-1 letters, and the Latin-1 superscript
  digits and fractions.\<close>

definition is_word :: "char \<Rightarrow> bool" where
  "is_word c = (let n = code c in
     is_digit c \<or> is_upper_ascii c \<or> is_lower_ascii c \<or> n = 95 \<or>
     n = 170 \<or> n = 178 \<or> n = 179 \<or> n = 181 \<or> n = 185 \<or> n = 186 \<or>
     (188 \<le> n \<and> n \<le> 190) \<or> (192 \<le> n \<and> n \<noteq> 215 \<and> n \<noteq> 247))"

text \<open>\<open>str.lower()\<close>, one character at a time.\<close>

definition lower_char :: "char \<Rightarrow> char" where
  "lower_char c = (let n = code c in
     if is_upper_ascii c \<or> (192 \<le> n \<and> n \<le> 222 \<and> n \<noteq> 215) then char_of (n + 32) else c)"

definition py_lower :: "string \<Rightarrow> string" where
  "py_lower s = map lower_char s"

text \<open>\<open>str.upper()\<close>. The sharp s becomes \<open>SS\<close>. The micro sign and the y with diaeresis
  have upper-case forms above 255 and are left as they are.\<close>

definition upper_char :: "char \<Rightarrow> string" where
  "upper_char c = (let n = code c in
     if is_lower_ascii c \<or> (224 \<le> n \<and> n \<le> 254 \<and> n \<noteq> 247) then [char_of (n - 32)]
     else if n = 223 then ''SS'' else [c])"

definition py_upper :: "string \<Rightarrow> string" where
  "py_upper s = concat (map upper_char s)"

definition py_strip :: "string \<Rightarrow> string" where
  "py_strip s = rev (dropWhile is_space (rev (dropWhile is_space s)))"

text \<open>\<open>s.replace(",", "")\<close>.\<close>

definition remove_commas :: "string \<Rightarrow> string" where
  "remove_commas s = filter (\<lambda>c. c \<noteq> CHR '','') s"

definition starts_with :: "string \<Rightarrow> string \<Rightarrow> bool" where
  "starts_with w s = (take (length w) s = w)"

text \<open>\<open>w in s\<close> for two strings.\<close>

fun contains :: "string \<Rightarrow> string \<Rightarrow> bool" where
  "contains w [] = (w = [])"
| "contains w (c # s) = (starts_with w (c # s) \<or> contains w s)"

section \<open>Numbers\<close>

text \<open>
  A Python \<open>float\<close> is an IEEE double: a rational number, or one of the three special
  values. \<open>float\<close> of a text and the product of two floats are the exact results
  rounded to the nearest double, ties to the even mantissa, and to infinity beyond the
  largest double. The sign of zero is not kept.
\<close>

datatype pyfloat = Fin rat | PosInf | NegInf | NaN

datatype error = ValueError | KeyError | TypeError | AttributeError

text \<open>A computation that raises returns \<open>Inl\<close>; \<open>bind_err\<close> runs the next step on a
  result and passes an exception on.\<close>

definition bind_err :: "error + 'a \<Rightarrow> ('a \<Rightarrow> error + 'b) \<Rightarrow> error + 'b" where
  "bind_err x k = (case x of Inl e \<Rightarrow> Inl e | Inr v \<Rightarrow> k v)"

text \<open>The nearest integer, a tie going to the even one.\<close>

definition round_half_even :: "rat \<Rightarrow> int" where
  "round_half_even x =
     (let n = \<lfloor>x\<rfloor>; d = x - of_int n
      in if d < 1 / 2 then n else if 1 / 2 < d then n + 1 else if even n then n else n + 1)"

text \<open>The binary exponent of a positive number \<open>x\<close>: the \<open>e\<close> with
  \<open>2 ^ e \<le> x < 2 ^ (e + 1)\<close>, found from the bit lengths of numerator and
  denominator.\<close>

definition expo :: "rat \<Rightarrow> int" where
  "expo x =
     (case quotient_of x of
        (p, q) \<Rightarrow> let e = bitlen p - bitlen q in if 2 powi e \<le> x then e else e - 1)"

text \<open>
  Rounding to a double: 53 bits of mantissa, the exponent of a normal number at least
  -1022 (below that the spacing of the subnormal numbers, \<open>2 ^ -1074\<close>, stays), and
  infinity once the rounded value reaches \<open>2 ^ 1024\<close>.
\<close>

definition round_double :: "rat \<Rightarrow> pyfloat" where
  "round_double x =
     (if x = 0 then Fin 0
      else
        let a = \<bar>x\<bar>;
            q = max (expo a) (- 1022) - 52;
            v = of_int (round_half_even (a / 2 powi q)) * 2 powi q
        in if 2 ^ 1024 \<le> v then (if x < 0 then NegInf else PosInf)
           else Fin (if x < 0 then - v else v))"

text \<open>\<open>x <= y\<close> and \<open>x == y\<close> on floats; every comparison with NaN is false.\<close>

fun fle :: "pyfloat \<Rightarrow> pyfloat \<Rightarrow> bool" where
  "fle NaN _ = False"
| "fle _ NaN = False"
| "fle NegInf _ = True"
| "fle _ PosInf = True"
| "fle (Fin a) (Fin b) = (a \<le> b)"
| "fle _ _ = False"

definition fge :: "pyfloat \<Rightarrow> pyfloat \<Rightarrow> bool" where
  "fge x y = fle y x"

fun feq :: "pyfloat \<Rightarrow> pyfloat \<Rightarrow> bool" where
  "feq NaN _ = False"
| "feq _ NaN = False"
| "feq x y = (x = y)"

text \<open>\<open>x * k\<close> for a float \<open>x\<close> and a positive integer constant \<open>k\<close> that is itself a
  double: the product, rounded.\<close>

fun fscale :: "pyfloat \<Rightarrow> rat \<Rightarrow> pyfloat" where
  "fscale (Fin a) k = round_double (a * k)"
| "fscale x k = x"

definition digit_val :: "char \<Rightarrow> nat" where
  "digit_val c = code c - 48"

text \<open>The number a run of digits denotes.\<close>

definition digits_value :: "string \<Rightarrow> 'a::semiring_1" where
  "digits_value ds = foldl (\<lambda>a c. 10 * a + of_nat (digit_val c)) 0 ds"

text \<open>
  The digits of a float literal: a digit, then digits each optionally preceded by one
  underscore. The result is the digits read, without the underscores, and the rest of
  the text. The flag says that a digit has just been read.
\<close>

fun digitpart :: "bool \<Rightarrow> string \<Rightarrow> string \<times> string" where
  "digitpart after [] = ([], [])"
| "digitpart after (c # s) =
     (if is_digit c then (case digitpart True s of (ds, r) \<Rightarrow> (c # ds, r))
      else if after \<and> c = CHR ''_'' \<and> (case s of d # _ \<Rightarrow> is_digit d | [] \<Rightarrow> False)
      then digitpart False s
      else ([], c # s))"

text \<open>The whitespace \<open>float()\<close> removes around its argument.\<close>

definition is_float_space :: "char \<Rightarrow> bool" where
  "is_float_space c = (let n = code c in (9 \<le> n \<and> n \<le> 13) \<or> n = 32 \<or> n = 133 \<or> n = 160)"

text \<open>The exponent of a float literal: nothing, or \<open>e\<close>, an optional sign and digits.\<close>

definition exponent :: "string \<Rightarrow> error + int" where
  "exponent s =
     (case s of [] \<Rightarrow> Inr 0
      | c # r \<Rightarrow>
          if c = CHR ''e'' \<or> c = CHR ''E'' then
            (let neg = starts_with ''-'' r;
                 r' = (if starts_with ''-'' r \<or> starts_with ''+'' r then tl r else r)
             in case digitpart False r' of
                  (ds, rest) \<Rightarrow>
                    if ds = [] \<or> rest \<noteq> [] then Inl ValueError
                    else Inr (if neg then - digits_value ds else digits_value ds))
          else Inl ValueError)"

definition pow10 :: "rat \<Rightarrow> int \<Rightarrow> rat" where
  "pow10 v e = (if 0 \<le> e then v * 10 ^ nat e else v / 10 ^ nat (- e))"

text \<open>An unsigned decimal literal: digits, an optional point and digits (one of the two
  digit groups may be missing, not both), an optional exponent.\<close>

definition decimal :: "string \<Rightarrow> error + rat" where
  "decimal s =
     (case digitpart False s of
        (ip, r1) \<Rightarrow>
          (case (if starts_with ''.'' r1 then digitpart False (tl r1) else ([], r1)) of
             (fp, r2) \<Rightarrow>
               if ip = [] \<and> fp = [] then Inl ValueError
               else (case exponent r2 of
                       Inl e \<Rightarrow> Inl e
                     | Inr e \<Rightarrow>
                         Inr (pow10 (digits_value (ip @ fp) / 10 ^ length fp) e))))"

text \<open>\<open>float(s)\<close> for a string \<open>s\<close>: the value of the literal, rounded to a double;
  \<open>Inl ValueError\<close> is the exception it raises.\<close>

definition py_float :: "string \<Rightarrow> error + pyfloat" where
  "py_float s =
     (let t = rev (dropWhile is_float_space (rev (dropWhile is_float_space s)));
          neg = starts_with ''-'' t;
          u = (if starts_with ''-'' t \<or> starts_with ''+'' t then tl t else t);
          w = py_lower u
      in if w = ''inf'' \<or> w = ''infinity'' then Inr (if neg then NegInf else PosInf)
         else if w = ''nan'' then Inr NaN
         else (case decimal u of
                 Inl e \<Rightarrow> Inl e
               | Inr v \<Rightarrow> Inr (round_double (if neg then - v else v))))"

section \<open>Regular expressions\<close>

text \<open>
  The patterns of the program use literals, character classes, greedy repetition of a
  character class, sequence, alternation, optional parts, capturing groups, the word
  boundary and the start of the text. \<open>Reps P lo hi\<close> is the class \<open>P\<close> repeated at
  least \<open>lo\<close> and at most \<open>hi\<close> times (\<open>None\<close>: no upper limit). \<open>LitI\<close> is a literal
  matched without regard to case.
\<close>

datatype re =
    Lit string
  | LitI string
  | Cls "char \<Rightarrow> bool"
  | Reps "char \<Rightarrow> bool" nat "nat option"
  | Seq re re
  | Alt re re
  | Opt re
  | Grp nat re
  | WordB
  | Bol

abbreviation Star :: "(char \<Rightarrow> bool) \<Rightarrow> re" where
  "Star P \<equiv> Reps P 0 None"

abbreviation Plus :: "(char \<Rightarrow> bool) \<Rightarrow> re" where
  "Plus P \<equiv> Reps P 1 None"

text \<open>A matcher state: the text before the position (reversed), the text after it, and
  the groups captured so far.\<close>

type_synonym mstate = "string \<times> string \<times> (nat \<times> string) list"

text \<open>The numbers of characters a greedy repetition may take, the largest first.\<close>

definition counts :: "(char \<Rightarrow> bool) \<Rightarrow> nat \<Rightarrow> nat option \<Rightarrow> string \<Rightarrow> nat list" where
  "counts P lo hi s =
     (let n = length (takeWhile P s);
          k = (case hi of None \<Rightarrow> n | Some h \<Rightarrow> min h n)
      in rev [lo..<Suc k])"

definition word_at :: "string \<Rightarrow> bool" where
  "word_at s = (case s of [] \<Rightarrow> False | c # _ \<Rightarrow> is_word c)"

text \<open>
  All the ways the pattern matches at the state, in the order in which the backtracking
  matcher of Python's \<open>re\<close> module tries them: the first element is the match it reports.
\<close>

fun run :: "re \<Rightarrow> mstate \<Rightarrow> mstate list" where
  "run (Lit w) (b, s, g) =
     (if starts_with w s then [(rev w @ b, drop (length w) s, g)] else [])"
| "run (LitI w) (b, s, g) =
     (if py_lower (take (length w) s) = py_lower w
      then [(rev (take (length w) s) @ b, drop (length w) s, g)] else [])"
| "run (Cls P) (b, s, g) =
     (case s of [] \<Rightarrow> [] | c # s' \<Rightarrow> if P c then [(c # b, s', g)] else [])"
| "run (Reps P lo hi) (b, s, g) =
     map (\<lambda>k. (rev (take k s) @ b, drop k s, g)) (counts P lo hi s)"
| "run (Seq r1 r2) st = concat (map (run r2) (run r1 st))"
| "run (Alt r1 r2) st = run r1 st @ run r2 st"
| "run (Opt r) st = run r st @ [st]"
| "run (Grp n r) (b, s, g) =
     map (\<lambda>(b', s', g'). (b', s', (n, take (length s - length s') s) # g')) (run r (b, s, g))"
| "run WordB (b, s, g) = (if word_at b \<noteq> word_at s then [(b, s, g)] else [])"
| "run Bol (b, s, g) = (if b = [] then [(b, s, g)] else [])"

text \<open>The match the matcher reports at a state, if there is one.\<close>

definition first_match :: "re \<Rightarrow> mstate \<Rightarrow> mstate option" where
  "first_match r st = (case run r st of [] \<Rightarrow> None | x # _ \<Rightarrow> Some x)"

text \<open>\<open>re.search\<close>: the first match at the leftmost position that has one. The result
  is the groups of the match, group 0 being the text matched.\<close>

fun search_from :: "re \<Rightarrow> string \<Rightarrow> string \<Rightarrow> (nat \<times> string) list option" where
  "search_from r b [] =
     (case first_match r (b, [], []) of None \<Rightarrow> None | Some (_, _, g) \<Rightarrow> Some ((0, []) # g))"
| "search_from r b (c # s) =
     (case first_match r (b, c # s, []) of
        None \<Rightarrow> search_from r (c # b) s
      | Some (_, s', g) \<Rightarrow> Some ((0, take (length (c # s) - length s') (c # s)) # g))"

definition search :: "re \<Rightarrow> string \<Rightarrow> (nat \<times> string) list option" where
  "search r s = search_from r [] s"

text \<open>\<open>re.fullmatch\<close>: the first match from the start that ends at the end of the text.\<close>

definition fullmatch :: "re \<Rightarrow> string \<Rightarrow> (nat \<times> string) list option" where
  "fullmatch r s =
     (case filter (\<lambda>(b, s', g). s' = []) (run r ([], s, [])) of
        [] \<Rightarrow> None
      | (_, _, g) # _ \<Rightarrow> Some g)"

text \<open>\<open>m.group(n)\<close>: \<open>None\<close> for a group that took no part in the match.\<close>

definition group :: "(nat \<times> string) list \<Rightarrow> nat \<Rightarrow> string option" where
  "group g n = map_of g n"

text \<open>The text of a group that takes part in every match of its pattern.\<close>

definition group_text :: "(nat \<times> string) list \<Rightarrow> nat \<Rightarrow> string" where
  "group_text g n = (case group g n of None \<Rightarrow> [] | Some w \<Rightarrow> w)"

text \<open>
  \<open>re.findall\<close> for a pattern with one group whose matches are not empty: the group of
  each match, the search resuming where the previous match ended. \<open>skip\<close> counts the
  characters of the previous match still to be passed over.
\<close>

fun findall_from :: "re \<Rightarrow> nat \<Rightarrow> string \<Rightarrow> string \<Rightarrow> string list" where
  "findall_from r skip b [] = []"
| "findall_from r skip b (c # s) =
     (if 0 < skip then findall_from r (skip - 1) (c # b) s
      else (case first_match r (b, c # s, []) of
              None \<Rightarrow> findall_from r 0 (c # b) s
            | Some (_, s', g) \<Rightarrow>
                group_text g 1 # findall_from r (length s - length s') (c # b) s))"

definition findall :: "re \<Rightarrow> string \<Rightarrow> string list" where
  "findall r s = findall_from r 0 [] s"

section \<open>The numeric token parser\<close>

text \<open>The pattern \<^verbatim>\<open>(\d+(?:\.\d+)?)([mk])?\<close>.\<close>

definition is_mk :: "char \<Rightarrow> bool" where
  "is_mk c = (c = CHR ''m'' \<or> c = CHR ''k'')"

definition number_re :: re where
  "number_re =
     Seq (Grp 1 (Seq (Plus is_digit) (Opt (Seq (Lit ''.'') (Plus is_digit)))))
         (Opt (Grp 2 (Cls is_mk)))"

text \<open>
  \<open>parse_number\<close>: \<open>None\<close> for the empty string; otherwise the text is stripped, put in
  lower case and freed of commas. If the pattern does not match the whole text, the
  result is \<open>float\<close> of the text, or \<open>None\<close> where \<open>float\<close> raises: that call is
  inside the \<open>try\<close>. The \<open>float\<close> call on group 1 of a match is outside it.
\<close>

definition parse_number :: "string \<Rightarrow> error + pyfloat option" where
  "parse_number s0 =
     (if s0 = [] then Inr None
      else
        (let s = remove_commas (py_lower (py_strip s0)) in
         case fullmatch number_re s of
           None \<Rightarrow> (case py_float s of Inl _ \<Rightarrow> Inr None | Inr v \<Rightarrow> Inr (Some v))
         | Some m \<Rightarrow>
             bind_err (py_float (group_text m 1)) (\<lambda>val.
               Inr (Some (if group m 2 = Some ''m'' then fscale val 1000000
                          else if group m 2 = Some ''k'' then fscale val 1000
                          else val)))))"

section \<open>The query parser\<close>

text \<open>The filter dictionary: a key is present exactly when its field is not \<open>None\<close>.\<close>

record intent =
  project :: "string list option"
  status :: "string list option"
  bedrooms :: "string option"
  max_price :: "pyfloat option"
  min_price :: "pyfloat option"
  min_area :: "pyfloat option"
  max_area :: "pyfloat option"
  exact_area :: "pyfloat option"
  building :: "string option"
  unit_no :: "string option"

definition empty_intent :: intent where
  "empty_intent = \<lparr>project = None, status = None, bedrooms = None, max_price = None,
     min_price = None, min_area = None, max_area = None, exact_area = None,
     building = None, unit_no = None\<rparr>"

definition lits :: "string list \<Rightarrow> re" where
  "lits ws = foldr (\<lambda>w r. Alt (Lit w) r) (butlast ws) (Lit (last ws))"

text \<open>The class \<^verbatim>\<open>[\d\.,]\<close>.\<close>

definition is_num_char :: "char \<Rightarrow> bool" where
  "is_num_char c = (is_digit c \<or> c = CHR ''.'' \<or> c = CHR '','')"

text \<open>The class \<^verbatim>\<open>[a-z]\<close> under \<open>re.IGNORECASE\<close>.\<close>

definition is_letter :: "char \<Rightarrow> bool" where
  "is_letter c = (is_lower_ascii c \<or> is_upper_ascii c)"

text \<open>\<^verbatim>\<open>(\d+)\s*(bed|bedroom|bedrooms)\<close>\<close>

definition bedrooms_re :: re where
  "bedrooms_re =
     Seq (Grp 1 (Plus is_digit))
       (Seq (Star is_space) (Grp 2 (lits [''bed'', ''bedroom'', ''bedrooms''])))"

text \<open>The two price patterns differ in their lead-in words only:
  \<^verbatim>\<open>(lead-in)\s*([\d\.,]+)\s*([mk])?\<close>.\<close>

definition price_re :: "string list \<Rightarrow> re" where
  "price_re leads =
     Seq (Grp 1 (lits leads))
       (Seq (Star is_space) (Seq (Grp 2 (Plus is_num_char))
         (Seq (Star is_space) (Opt (Grp 3 (Cls is_mk))))))"

text \<open>\<^verbatim>\<open>(under|<=|less than)\s*([\d\.,]+)\s*([mk])?\<close>\<close>

definition max_price_re :: re where
  "max_price_re = price_re [''under'', ''<='', ''less than'']"

text \<open>\<^verbatim>\<open>(over|>=|more than|above)\s*([\d\.,]+)\s*([mk])?\<close>\<close>

definition min_price_re :: re where
  "min_price_re = price_re [''over'', ''>='', ''more than'', ''above'']"

text \<open>The two area patterns differ in their comparators only:
  \<^verbatim>\<open>(area|sqm)\s*(comparator)\s*([\d\.,]+)\<close>.\<close>

definition area_re :: "string list \<Rightarrow> re" where
  "area_re cmps =
     Seq (Grp 1 (lits [''area'', ''sqm'']))
       (Seq (Star is_space) (Seq (Grp 2 (lits cmps))
         (Seq (Star is_space) (Grp 3 (Plus is_num_char)))))"

text \<open>\<^verbatim>\<open>(area|sqm)\s*(>=|over|min)\s*([\d\.,]+)\<close>\<close>

definition min_area_re :: re where
  "min_area_re = area_re [''>='', ''over'', ''min'']"

text \<open>\<^verbatim>\<open>(area|sqm)\s*(<=|under|max)\s*([\d\.,]+)\<close>\<close>

definition max_area_re :: re where
  "max_area_re = area_re [''<='', ''under'', ''max'']"

text \<open>\<^verbatim>\<open>\b(\d{2,4})\b\<close>\<close>

definition bare_number_re :: re where
  "bare_number_re = Seq WordB (Seq (Grp 1 (Reps is_digit 2 (Some 4))) WordB)"

text \<open>\<^verbatim>\<open>\b([a-z]\d{1,2})\b\<close> with \<open>re.IGNORECASE\<close>\<close>

definition building_re :: re where
  "building_re =
     Seq WordB (Seq (Grp 1 (Seq (Cls is_letter) (Reps is_digit 1 (Some 2)))) WordB)"

text \<open>\<^verbatim>\<open>\b([a-z]\d{1,2}-\d{2,3})\b\<close> with \<open>re.IGNORECASE\<close>\<close>

definition unit_re :: re where
  "unit_re =
     Seq WordB
       (Seq (Grp 1 (Seq (Cls is_letter) (Seq (Reps is_digit 1 (Some 2))
              (Seq (Lit ''-'') (Reps is_digit 2 (Some 3))))))
          WordB)"

text \<open>
  The value of a price match: \<open>float\<close> of group 2 without its commas, times the
  multiplier of the suffix in group 3 (\<open>m.group(3) or ""\<close>).
\<close>

definition price_value :: "(nat \<times> string) list \<Rightarrow> error + pyfloat" where
  "price_value m =
     bind_err (py_float (remove_commas (group_text m 2))) (\<lambda>val.
       let unit = (case group m 3 of None \<Rightarrow> [] | Some u \<Rightarrow> u)
       in Inr (fscale val (if unit = ''m'' then 1000000 else if unit = ''k'' then 1000 else 1)))"

text \<open>The value of an area match: \<open>float\<close> of group 3 without its commas.\<close>

definition area_value :: "(nat \<times> string) list \<Rightarrow> error + pyfloat" where
  "area_value m = py_float (remove_commas (group_text m 3))"

text \<open>One numeric extractor of \<open>parse_query\<close>: if the pattern is found, the value of the
  match (or the exception that computing it raises); if not, no constraint.\<close>

definition extract_bound ::
  "re \<Rightarrow> ((nat \<times> string) list \<Rightarrow> error + pyfloat) \<Rightarrow> string \<Rightarrow> error + pyfloat option" where
  "extract_bound r val ql =
     (case search r ql of
        None \<Rightarrow> Inr None
      | Some m \<Rightarrow> bind_err (val m) (\<lambda>v. Inr (Some v)))"

text \<open>The exact-area rule: the first bare number, if there is one and no bedroom count
  and no price bound has been extracted.\<close>

definition exact_area_rule :: "string \<Rightarrow> intent \<Rightarrow> error + intent" where
  "exact_area_rule ql f =
     (let m_all = findall bare_number_re ql in
      if m_all \<noteq> [] \<and> bedrooms f = None \<and> min_price f = None \<and> max_price f = None
      then bind_err (py_float (hd m_all)) (\<lambda>v. Inr (f\<lparr>exact_area := Some v\<rparr>))
      else Inr f)"

text \<open>The rules for project, status and bedrooms, on the text in lower case.\<close>

definition parse_keywords :: "string \<Rightarrow> intent" where
  "parse_keywords ql =
     (let f = empty_intent;
          f = (if contains ''boho'' ql then f\<lparr>project := Some [''BOHO'']\<rparr> else f);
          f = (if contains ''boardwalk'' ql
               then f\<lparr>project := Some ((case project f of None \<Rightarrow> [] | Some l \<Rightarrow> l) @ [''Boardwalk''])\<rparr>
               else f);
          f = (if contains ''available'' ql then f\<lparr>status := Some [''Available'']\<rparr> else f);
          f = (if contains ''hold'' ql then f\<lparr>status := Some [''Hold'']\<rparr> else f)
      in case search bedrooms_re ql of
           None \<Rightarrow> f
         | Some m \<Rightarrow> f\<lparr>bedrooms := Some (group_text m 1)\<rparr>)"

text \<open>The rules for the building code and the unit code.\<close>

definition parse_codes :: "string \<Rightarrow> intent \<Rightarrow> intent" where
  "parse_codes ql f =
     (let f = (case search building_re ql of
                 None \<Rightarrow> f
               | Some m \<Rightarrow> f\<lparr>building := Some (py_upper (group_text m 1))\<rparr>)
      in case search unit_re ql of
           None \<Rightarrow> f
         | Some m \<Rightarrow> f\<lparr>unit_no := Some (py_upper (group_text m 1))\<rparr>)"

text \<open>\<open>parse_query\<close>: the rules in the order of the source. \<open>Inl ValueError\<close> is the
  exception of a \<open>float\<close> call, which nothing in \<open>parse_query\<close> catches.\<close>

definition parse_query :: "string \<Rightarrow> error + intent" where
  "parse_query q =
     (let ql = py_lower q; f = parse_keywords ql in
      bind_err (extract_bound max_price_re price_value ql) (\<lambda>hi_p.
      bind_err (extract_bound min_price_re price_value ql) (\<lambda>lo_p.
      bind_err (extract_bound min_area_re area_value ql) (\<lambda>lo_a.
      bind_err (extract_bound max_area_re area_value ql) (\<lambda>hi_a.
      bind_err (exact_area_rule ql
                  (f\<lparr>max_price := hi_p, min_price := lo_p, min_area := lo_a, max_area := hi_a\<rparr>))
        (\<lambda>f. Inr (parse_codes ql f)))))))"

section \<open>Tables\<close>

text \<open>
  A cell of a data frame holds text, a number, or is missing: \<open>NA\<close> is \<open>pd.NA\<close>, and
  \<open>Num NaN\<close> is the NaN that marks a missing value in pandas. A row lists the cell of
  each column; a frame is its column names and its rows. Column names are taken to be
  distinct. The dtype of a column is not kept: operations act cell by cell.
\<close>

datatype cell = NA | Str string | Num pyfloat

type_synonym row = "(string \<times> cell) list"

record frame =
  columns :: "string list"
  rows :: "row list"

definition cell_of :: "row \<Rightarrow> string \<Rightarrow> cell" where
  "cell_of r c = (case map_of r c of None \<Rightarrow> Num NaN | Some v \<Rightarrow> v)"

definition isna :: "cell \<Rightarrow> bool" where
  "isna c = (c = NA \<or> c = Num NaN)"

text \<open>\<open>series.fillna(v)\<close>, on one cell.\<close>

definition fillna :: "cell \<Rightarrow> cell \<Rightarrow> cell" where
  "fillna v c = (if isna c then v else c)"

text \<open>The results of a cell-by-cell operation, or the first exception it raises.\<close>

fun all_ok :: "(error + 'a) list \<Rightarrow> error + 'a list" where
  "all_ok [] = Inr []"
| "all_ok (x # xs) =
     (case x of Inl e \<Rightarrow> Inl e
      | Inr v \<Rightarrow> (case all_ok xs of Inl e \<Rightarrow> Inl e | Inr vs \<Rightarrow> Inr (v # vs)))"

text \<open>\<open>df[mask]\<close>: the rows whose entry in the mask is true.\<close>

definition select_rows :: "frame \<Rightarrow> bool list \<Rightarrow> frame" where
  "select_rows d bs = d\<lparr>rows := map fst (filter snd (zip (rows d) bs))\<rparr>"

text \<open>\<open>out[p(out[c])]\<close>: \<open>KeyError\<close> if the frame has no column \<open>c\<close>; otherwise the
  test \<open>p\<close> is computed for the cell of every row, and the rows that pass are kept.\<close>

definition keep :: "string \<Rightarrow> (cell \<Rightarrow> error + bool) \<Rightarrow> frame \<Rightarrow> error + frame" where
  "keep c p d =
     (if c \<notin> set (columns d) then Inl KeyError
      else bind_err (all_ok (map (\<lambda>r. p (cell_of r c)) (rows d)))
             (\<lambda>bs. Inr (select_rows d bs)))"

text \<open>\<open>series.isin(l)\<close> for a list of strings.\<close>

definition isin :: "string list \<Rightarrow> cell \<Rightarrow> error + bool" where
  "isin l c = Inr (case c of Str s \<Rightarrow> s \<in> set l | _ \<Rightarrow> False)"

text \<open>\<open>series.str.contains(regex)\<close>: the \<open>.str\<close> accessor is for text only.\<close>

definition str_contains :: "re \<Rightarrow> cell \<Rightarrow> error + bool" where
  "str_contains r c =
     (case c of Str s \<Rightarrow> Inr (search r s \<noteq> None) | _ \<Rightarrow> Inl AttributeError)"

text \<open>\<open>series >= b\<close> and \<open>series <= b\<close> for a float \<open>b\<close>: text cannot be ordered against
  a number.\<close>

definition ge_num :: "pyfloat \<Rightarrow> cell \<Rightarrow> error + bool" where
  "ge_num b c = (case c of Num x \<Rightarrow> Inr (fge x b) | _ \<Rightarrow> Inl TypeError)"

definition le_num :: "pyfloat \<Rightarrow> cell \<Rightarrow> error + bool" where
  "le_num b c = (case c of Num x \<Rightarrow> Inr (fle x b) | _ \<Rightarrow> Inl TypeError)"

text \<open>\<open>series == b\<close> for a float and for a string.\<close>

definition eq_num :: "pyfloat \<Rightarrow> cell \<Rightarrow> error + bool" where
  "eq_num b c = Inr (case c of Num x \<Rightarrow> feq x b | _ \<Rightarrow> False)"

definition eq_str :: "string \<Rightarrow> cell \<Rightarrow> error + bool" where
  "eq_str b c = Inr (c = Str b)"

section \<open>The filter engine\<close>

text \<open>\<^verbatim>\<open>(^|\s)\<close>, the escaped bedroom count, \<^verbatim>\<open>\s*Bedrooms?\<close>, matched with
  \<open>case=False\<close>.\<close>

definition bedrooms_filter_re :: "string \<Rightarrow> re" where
  "bedrooms_filter_re b =
     Seq (Grp 1 (Alt Bol (Cls is_space)))
       (Seq (LitI b) (Seq (Star is_space) (Seq (LitI ''Bedroom'') (Opt (LitI ''s'')))))"

text \<open>The variables of \<open>apply_filters\<close>: its two arguments and the local \<open>out\<close>.\<close>

record env =
  var_df :: frame
  var_f :: intent
  var_out :: frame

text \<open>\<open>out = k(out)\<close>\<close>

definition assign_out :: "(frame \<Rightarrow> error + frame) \<Rightarrow> env \<Rightarrow> error + env" where
  "assign_out k e = bind_err (k (var_out e)) (\<lambda>d. Inr (e\<lparr>var_out := d\<rparr>))"

text \<open>\<open>if key in f: out = k(f[key])(out)\<close>\<close>

definition if_in :: "(intent \<Rightarrow> 'a option) \<Rightarrow> ('a \<Rightarrow> frame \<Rightarrow> error + frame) \<Rightarrow> env \<Rightarrow> error + env" where
  "if_in key k e = (case key (var_f e) of None \<Rightarrow> Inr e | Some v \<Rightarrow> assign_out (k v) e)"

text \<open>The ten conditional statements of \<open>apply_filters\<close>, in the order of the source.\<close>

definition filter_stmts :: "(env \<Rightarrow> error + env) list" where
  "filter_stmts =
     [if_in project (\<lambda>l. keep ''project'' (isin l)),
      if_in status (\<lambda>l. keep ''status'' (isin l)),
      if_in bedrooms (\<lambda>b. keep ''configuration''
         (\<lambda>c. str_contains (bedrooms_filter_re b) (fillna (Str []) c))),
      if_in min_price (\<lambda>b. keep ''price'' (\<lambda>c. ge_num b (fillna (Num (Fin 0)) c))),
      if_in max_price (\<lambda>b. keep ''price'' (\<lambda>c. le_num b (fillna (Num (Fin 0)) c))),
      if_in min_area (\<lambda>b. keep ''selling_area'' (\<lambda>c. ge_num b (fillna (Num (Fin 0)) c))),
      if_in max_area (\<lambda>b. keep ''selling_area'' (\<lambda>c. le_num b (fillna (Num (Fin 0)) c))),
      if_in exact_area (\<lambda>b. keep ''selling_area'' (\<lambda>c. eq_num b (fillna (Num (Fin 0)) c))),
      if_in building (\<lambda>b. keep ''_building_upper'' (eq_str b)),
      if_in unit_no (\<lambda>b. keep ''_unit_upper'' (eq_str b))]"

text \<open>Statements run one after the other; an exception ends the run.\<close>

fun exec :: "(env \<Rightarrow> error + env) list \<Rightarrow> env \<Rightarrow> error + env" where
  "exec [] e = Inr e"
| "exec (st # sts) e = bind_err (st e) (exec sts)"

text \<open>\<open>apply_filters(df, f)\<close>: \<open>out = df.copy()\<close>, the statements, \<open>return out\<close>.\<close>

definition apply_filters_env :: "frame \<Rightarrow> intent \<Rightarrow> error + env" where
  "apply_filters_env d i = exec filter_stmts \<lparr>var_df = d, var_f = i, var_out = d\<rparr>"

definition apply_filters :: "frame \<Rightarrow> intent \<Rightarrow> error + frame" where
  "apply_filters d i = bind_err (apply_filters_env d i) (\<lambda>e. Inr (var_out e))"

text \<open>
  What the statements of \<open>apply_filters\<close> ask of a single row, one test for each key of
  the filter dictionary; a key that is not in the dictionary asks nothing.
\<close>

definition asks :: "'a option \<Rightarrow> ('a \<Rightarrow> cell \<Rightarrow> error + bool) \<Rightarrow> string \<Rightarrow> row \<Rightarrow> bool" where
  "asks x p c r = (case x of None \<Rightarrow> True | Some v \<Rightarrow> p v (cell_of r c) = Inr True)"

definition row_tests :: "(intent \<Rightarrow> row \<Rightarrow> bool) list" where
  "row_tests =
     [\<lambda>i. asks (project i) isin ''project'',
      \<lambda>i. asks (status i) isin ''status'',
      \<lambda>i. asks (bedrooms i)
             (\<lambda>b c. str_contains (bedrooms_filter_re b) (fillna (Str []) c)) ''configuration'',
      \<lambda>i. asks (min_price i) (\<lambda>b c. ge_num b (fillna (Num (Fin 0)) c)) ''price'',
      \<lambda>i. asks (max_price i) (\<lambda>b c. le_num b (fillna (Num (Fin 0)) c)) ''price'',
      \<lambda>i. asks (min_area i) (\<lambda>b c. ge_num b (fillna (Num (Fin 0)) c)) ''selling_area'',
      \<lambda>i. asks (max_area i) (\<lambda>b c. le_num b (fillna (Num (Fin 0)) c)) ''selling_area'',
      \<lambda>i. asks (exact_area i) (\<lambda>b c. eq_num b (fillna (Num (Fin 0)) c)) ''selling_area'',
      \<lambda>i. asks (building i) eq_str ''_building_upper'',
      \<lambda>i. asks (unit_no i) eq_str ''_unit_upper'']"

definition passes :: "intent \<Rightarrow> row \<Rightarrow> bool" where
  "passes i r = list_all (\<lambda>t. t i r) row_tests"

text \<open>Intent \<open>a\<close> is part of intent \<open>b\<close>: every constraint of \<open>a\<close> is a constraint of \<open>b\<close>,
  with the same value.\<close>

definition part_of :: "'a option \<Rightarrow> 'a option \<Rightarrow> bool" where
  "part_of x y = (case x of None \<Rightarrow> True | Some v \<Rightarrow> y = Some v)"

definition sub_intent :: "intent \<Rightarrow> intent \<Rightarrow> bool" where
  "sub_intent a b =
     (part_of (project a) (project b) \<and> part_of (status a) (status b) \<and>
      part_of (bedrooms a) (bedrooms b) \<and> part_of (min_price a) (min_price b) \<and>
      part_of (max_price a) (max_price b) \<and> part_of (min_area a) (min_area b) \<and>
      part_of (max_area a) (max_area b) \<and> part_of (exact_area a) (exact_area b) \<and>
      part_of (building a) (building b) \<and> part_of (unit_no a) (unit_no b))"

text \<open>Two records for the literal scenarios: one with no price and status Available, one
  with price 10000000 and status Hold.\<close>

definition unit_columns :: "string list" where
  "unit_columns = [''project'', ''building'', ''unit_no'', ''configuration'', ''selling_area'',
     ''price'', ''status'', ''_unit_upper'', ''_building_upper'']"

definition unit_a :: row where
  "unit_a = [(''project'', Str ''BOHO''), (''building'', Str ''c1''), (''unit_no'', Str ''c1-002''),
     (''configuration'', Str ''2 Bedrooms''), (''selling_area'', Num NaN), (''price'', Num NaN),
     (''status'', Str ''Available''), (''_unit_upper'', Str ''C1-002''),
     (''_building_upper'', Str ''C1'')]"

definition unit_b :: row where
  "unit_b = [(''project'', Str ''Boardwalk''), (''building'', Str ''A1''), (''unit_no'', Str ''A1-01''),
     (''configuration'', Str ''Duplex 3 bedroom''), (''selling_area'', Num (Fin 180)),
     (''price'', Num (Fin 10000000)), (''status'', Str ''Hold''), (''_unit_upper'', Str ''A1-01''),
     (''_building_upper'', Str ''A1'')]"

definition two_units :: frame where
  "two_units = \<lparr>columns = unit_columns, rows = [unit_a, unit_b]\<rparr>"

text \<open>A statement narrows by the test \<open>t\<close> if, whenever it returns, it has changed
  nothing but \<open>out\<close>, and \<open>out\<close> keeps exactly its rows that pass \<open>t\<close>.\<close>

definition narrows :: "(intent \<Rightarrow> row \<Rightarrow> bool) \<Rightarrow> (env \<Rightarrow> error + env) \<Rightarrow> bool" where
  "narrows t st = (\<forall>e e'. st e = Inr e' \<longrightarrow>
      e' = e\<lparr>var_out := (var_out e)\<lparr>rows := filter (t (var_f e)) (rows (var_out e))\<rparr>\<rparr>)"

text \<open>
  A numeric token, in the words of the specification: digits, an optional decimal part
  (a point and digits), and an optional suffix \<open>k\<close> or \<open>m\<close>. \<open>point_digits fs\<close> is
  the decimal part with the digits \<open>fs\<close> (none if \<open>fs\<close> is empty), \<open>decimal_value\<close>
  is the number the digits denote, and \<open>apply_suffix\<close> multiplies by the factor of the
  suffix.
\<close>

definition point_digits :: "string \<Rightarrow> string" where
  "point_digits fs = (if fs = [] then [] else CHR ''.'' # fs)"

definition decimal_value :: "string \<Rightarrow> string \<Rightarrow> rat" where
  "decimal_value ds fs = digits_value (ds @ fs) / 10 ^ length fs"

definition apply_suffix :: "string \<Rightarrow> pyfloat \<Rightarrow> pyfloat" where
  "apply_suffix suf v =
     (if suf = ''m'' then fscale v 1000000 else if suf = ''k'' then fscale v 1000 else v)"

text \<open>\<open>w\<close> is the end of \<open>s\<close>.\<close>

definition ends_with :: "string \<Rightarrow> string \<Rightarrow> bool" where
  "ends_with w s = (drop (length s - length w) s = w)"

section \<open>The schema normalizer\<close>

text \<open>
  Two functions of pandas are taken as parameters: \<open>to_numeric\<close>, the number that
  \<open>pd.to_numeric(errors="coerce")\<close> reads from a text (NaN if it reads none), and
  \<open>num_str\<close>, the text \<open>astype(str)\<close> writes for a number.
\<close>

record pandas =
  to_numeric :: "string \<Rightarrow> pyfloat"
  num_str :: "pyfloat \<Rightarrow> string"

text \<open>\<open>series.astype(str)\<close>, on one cell.\<close>

definition astype_str :: "pandas \<Rightarrow> cell \<Rightarrow> string" where
  "astype_str P c =
     (case c of Str s \<Rightarrow> s | NA \<Rightarrow> ''<NA>''
      | Num x \<Rightarrow> if x = NaN then ''nan'' else num_str P x)"

text \<open>A frame with the columns \<open>cols\<close>, the cell of row \<open>r\<close> in column \<open>c\<close> being
  \<open>g r c\<close>.\<close>

definition set_columns :: "string list \<Rightarrow> (row \<Rightarrow> string \<Rightarrow> cell) \<Rightarrow> frame \<Rightarrow> frame" where
  "set_columns cols g d =
     \<lparr>columns = cols, rows = map (\<lambda>r. map (\<lambda>c. (c, g r c)) cols) (rows d)\<rparr>"

text \<open>\<open>df[c] = g(df)\<close>, row by row: the column is replaced, or added as the last one.\<close>

definition assign_col :: "string \<Rightarrow> (row \<Rightarrow> cell) \<Rightarrow> frame \<Rightarrow> frame" where
  "assign_col c g d =
     set_columns (if c \<in> set (columns d) then columns d else columns d @ [c])
       (\<lambda>r k. if k = c then g r else cell_of r k) d"

text \<open>\<open>df[c] = g(df[c])\<close>, cell by cell.\<close>

definition map_col :: "string \<Rightarrow> (cell \<Rightarrow> cell) \<Rightarrow> frame \<Rightarrow> frame" where
  "map_col c g d = assign_col c (\<lambda>r. g (cell_of r c)) d"

text \<open>\<open>df.reindex(columns=cols)\<close>: a column the frame does not have is filled with NaN.\<close>

definition reindex :: "string list \<Rightarrow> frame \<Rightarrow> frame" where
  "reindex cols d =
     set_columns cols (\<lambda>r c. if c \<in> set (columns d) then cell_of r c else Num NaN) d"

text \<open>\<open>raw[[c for c in KEEP if c in raw.columns]].rename(columns=KEEP)\<close>\<close>

definition select_rename :: "(string \<times> string) list \<Rightarrow> frame \<Rightarrow> frame" where
  "select_rename keep_map raw =
     (let kept = filter (\<lambda>(h, n). h \<in> set (columns raw)) keep_map
      in \<lparr>columns = map snd kept,
          rows = map (\<lambda>r. map (\<lambda>(h, n). (n, cell_of r h)) kept) (rows raw)\<rparr>)"

definition BW_KEEP :: "(string \<times> string) list" where
  "BW_KEEP =
     [(''#'', ''row_no''), (''Building No.#'', ''building''), (''Unit No.#'', ''unit_no''),
      (''Floor No.#'', ''floor''), (''Configuration'', ''configuration''),
      (''Selling Area'', ''selling_area''), (''Land Area'', ''land_area''),
      (''Open Terrace'' @ [CHR 0x0A] @ '' Area'', ''terrace_area''),
      (''10 Years 0%'', ''price''), (''Status'', ''status'')]"

definition BOHO_KEEP :: "(string \<times> string) list" where
  "BOHO_KEEP =
     [(''#'', ''row_no''), (''Unit Type'', ''unit_type''), (''Building No#'', ''building''),
      (''Unit No.#'', ''unit_no''), (''Floor No.#'', ''floor''),
      (''Configuration'', ''configuration''), (''Selling Area'', ''selling_area''),
      (''Land Area'', ''land_area''), (''Garden area'', ''garden_area''),
      (''Original Value'', ''price''), (''Status'', ''status'')]"

text \<open>
  The columns of dtype \<open>object\<close>. The frames of the program come from \<open>read_csv\<close>,
  which gives a column the dtype \<open>object\<close> when it holds text and a numeric dtype when
  it holds numbers or nothing; a column of a frame without rows is of dtype \<open>object\<close>.
\<close>

definition is_object_col :: "frame \<Rightarrow> string \<Rightarrow> bool" where
  "is_object_col d c =
     (rows d = [] \<or> list_ex (\<lambda>r. case cell_of r c of Num _ \<Rightarrow> False | _ \<Rightarrow> True) (rows d))"

text \<open>\<open>series.astype(str).str.strip()\<close>, then \<open>replace({"nan": pd.NA})\<close>.\<close>

definition clean_text :: "pandas \<Rightarrow> cell \<Rightarrow> cell" where
  "clean_text P c = (let t = py_strip (astype_str P c) in if t = ''nan'' then NA else Str t)"

text \<open>\<open>re.sub(r"\s+", " ", s)\<close>; the flag says that the previous character was
  whitespace.\<close>

fun collapse_spaces :: "bool \<Rightarrow> string \<Rightarrow> string" where
  "collapse_spaces w [] = []"
| "collapse_spaces w (c # s) =
     (if is_space c then (if w then [] else '' '') @ collapse_spaces True s
      else c # collapse_spaces False s)"

text \<open>\<open>df[c] = df[c].str.replace(r"\s+", " ", regex=True)\<close>: the \<open>.str\<close> accessor
  raises \<open>AttributeError\<close> on a column that is not of dtype \<open>object\<close>.\<close>

definition collapse_col :: "string \<Rightarrow> frame \<Rightarrow> error + frame" where
  "collapse_col c d =
     (if c \<notin> set (columns d) then Inr d
      else if \<not> is_object_col d c then Inl AttributeError
      else Inr (map_col c (\<lambda>x. case x of Str s \<Rightarrow> Str (collapse_spaces False s) | _ \<Rightarrow> x) d))"

text \<open>\<open>coerce_numeric\<close>, on one cell.\<close>

definition coerce_numeric :: "pandas \<Rightarrow> cell \<Rightarrow> cell" where
  "coerce_numeric P c = Num (to_numeric P (py_strip (remove_commas (astype_str P c))))"

definition numeric_columns :: "string list" where
  "numeric_columns = [''price'', ''selling_area'', ''land_area'', ''garden_area'', ''terrace_area'']"

text \<open>\<open>cleanup_cols\<close>: the text columns are stripped, \<open>floor\<close> and \<open>configuration\<close>
  have their whitespace collapsed, the numeric columns are coerced, and the missing
  cells of \<open>status\<close> are filled, if the frame has a column \<open>status\<close>.\<close>

definition cleanup_cols :: "pandas \<Rightarrow> frame \<Rightarrow> error + frame" where
  "cleanup_cols P d0 =
     (let d = foldl (\<lambda>d c. map_col c (clean_text P) d) d0
                (filter (is_object_col d0) (columns d0))
      in bind_err (collapse_col ''floor'' d) (\<lambda>d.
         bind_err (collapse_col ''configuration'' d) (\<lambda>d.
           let d = foldl (\<lambda>d c. if c \<in> set (columns d) then map_col c (coerce_numeric P) d else d)
                     d numeric_columns;
               d = (if ''status'' \<in> set (columns d)
                    then map_col ''status'' (fillna (Str ''Available'')) d else d)
           in Inr d)))"

definition key_order :: "string list" where
  "key_order = [''project'', ''building'', ''unit_no'', ''floor'', ''configuration'', ''unit_type'',
     ''selling_area'', ''land_area'', ''garden_area'', ''terrace_area'', ''price'', ''status'']"

text \<open>\<open>df.dropna(how="all")\<close>\<close>

definition dropna_all :: "frame \<Rightarrow> frame" where
  "dropna_all d = d\<lparr>rows := filter (\<lambda>r. \<not> list_all (\<lambda>c. isna (cell_of r c)) (columns d)) (rows d)\<rparr>"

text \<open>\<open>units[c] = units[src].astype(str).str.upper()\<close>\<close>

definition add_upper :: "pandas \<Rightarrow> string \<Rightarrow> string \<Rightarrow> frame \<Rightarrow> error + frame" where
  "add_upper P c src d =
     (if src \<notin> set (columns d) then Inl KeyError
      else Inr (assign_col c (\<lambda>r. Str (py_upper (astype_str P (cell_of r src)))) d))"

text \<open>\<open>load_all_units\<close>, from the two sheets as \<open>try_load_sheet\<close> returns them.\<close>

definition load_all_units :: "pandas \<Rightarrow> frame \<Rightarrow> frame \<Rightarrow> error + frame" where
  "load_all_units P bw_raw boho_raw =
     (let bw = assign_col ''project'' (\<lambda>r. Str ''Boardwalk'') (select_rename BW_KEEP bw_raw);
          boho = assign_col ''project'' (\<lambda>r. Str ''BOHO'') (select_rename BOHO_KEEP boho_raw)
      in bind_err (cleanup_cols P bw) (\<lambda>bw.
         bind_err (cleanup_cols P boho) (\<lambda>boho.
           let all_cols = sort (remdups (columns bw @ columns boho));
               bw = reindex all_cols bw;
               boho = reindex all_cols boho;
               units = dropna_all \<lparr>columns = all_cols, rows = rows bw @ rows boho\<rparr>;
               ordered = key_order @ filter (\<lambda>c. c \<notin> set key_order) (columns units);
               units = reindex (filter (\<lambda>c. c \<in> set (columns units)) ordered) units
           in bind_err (add_upper P ''_unit_upper'' ''unit_no'' units)
                (add_upper P ''_building_upper'' ''building''))))"

section \<open>The page\<close>

text \<open>The sidebar: two multiselects and five text inputs.\<close>

record sidebar =
  ui_project :: "string list"
  ui_status :: "string list"
  ui_bedrooms :: string
  ui_min_price :: string
  ui_max_price :: string
  ui_min_area :: string
  ui_max_area :: string

text \<open>\<open>s.split(",")\<close>; the accumulator is the current piece, reversed.\<close>

fun split_commas :: "string \<Rightarrow> string \<Rightarrow> string list" where
  "split_commas acc [] = [rev acc]"
| "split_commas acc (c # s) =
     (if c = CHR '','' then rev acc # split_commas [] s else split_commas (c # acc) s)"

text \<open>\<^verbatim>\<open>(^|\s)(n1|n2|...)\s*Bedrooms?\<close> with \<open>case=False\<close>, for the escaped counts
  \<open>nums\<close>.\<close>

definition bedrooms_sidebar_re :: "string list \<Rightarrow> re" where
  "bedrooms_sidebar_re nums =
     Seq (Grp 1 (Alt Bol (Cls is_space)))
       (Seq (Grp 2 (foldr (\<lambda>w r. Alt (LitI w) r) (butlast nums) (LitI (last nums))))
         (Seq (Star is_space) (Seq (LitI ''Bedroom'') (Opt (LitI ''s'')))))"

text \<open>\<open>if x is not None: out = k(x)(out)\<close>\<close>

definition if_some :: "'a option \<Rightarrow> ('a \<Rightarrow> frame \<Rightarrow> error + frame) \<Rightarrow> frame \<Rightarrow> error + frame" where
  "if_some x k d = (case x of None \<Rightarrow> Inr d | Some v \<Rightarrow> k v d)"

text \<open>\<open>filter_df\<close>: the sidebar filters. The four bounds are \<open>parse_number\<close> of the
  text inputs.\<close>

definition filter_df :: "sidebar \<Rightarrow> frame \<Rightarrow> error + frame" where
  "filter_df ui d =
     (let nums = filter (\<lambda>n. n \<noteq> []) (map py_strip (split_commas [] (ui_bedrooms ui)))
      in
      bind_err (if ui_project ui \<noteq> [] then keep ''project'' (isin (ui_project ui)) d else Inr d) (\<lambda>d.
      bind_err (if ui_status ui \<noteq> [] then keep ''status'' (isin (ui_status ui)) d else Inr d) (\<lambda>d.
      bind_err (if ui_bedrooms ui \<noteq> [] \<and> nums \<noteq> []
                then keep ''configuration''
                       (\<lambda>c. str_contains (bedrooms_sidebar_re nums) (fillna (Str []) c)) d
                else Inr d) (\<lambda>d.
      bind_err (parse_number (ui_min_price ui)) (\<lambda>lo_p.
      bind_err (parse_number (ui_max_price ui)) (\<lambda>hi_p.
      bind_err (parse_number (ui_min_area ui)) (\<lambda>lo_a.
      bind_err (parse_number (ui_max_area ui)) (\<lambda>hi_a.
      bind_err (if_some lo_p (\<lambda>b. keep ''price'' (\<lambda>c. ge_num b (fillna (Num (Fin 0)) c))) d) (\<lambda>d.
      bind_err (if_some hi_p (\<lambda>b. keep ''price'' (\<lambda>c. le_num b (fillna (Num (Fin 0)) c))) d) (\<lambda>d.
      bind_err (if_some lo_a
                  (\<lambda>b. keep ''selling_area'' (\<lambda>c. ge_num b (fillna (Num (Fin 0)) c))) d) (\<lambda>d.
      if_some hi_a
        (\<lambda>b. keep ''selling_area'' (\<lambda>c. le_num b (fillna (Num (Fin 0)) c))) d)))))))))))"

text \<open>\<open>chat_df\<close>: the sidebar filters, then, if a prompt was typed, the filters of the
  parsed prompt.\<close>

definition chat_df :: "sidebar \<Rightarrow> string \<Rightarrow> frame \<Rightarrow> error + frame" where
  "chat_df ui prompt units =
     bind_err (filter_df ui units) (\<lambda>filtered.
       if prompt = [] then Inr filtered
       else bind_err (parse_query prompt) (apply_filters filtered))"

text \<open>The columns of the table on the screen: \<open>st.dataframe(chat_df)\<close> is given the
  frame as it is.\<close>

definition displayed_columns :: "frame \<Rightarrow> string list" where
  "displayed_columns d = columns d"

text \<open>The columns of the download:
  \<open>chat_df.drop(columns=[c for c in chat_df.columns if c.startswith("_")])\<close>.\<close>

definition csv_columns :: "frame \<Rightarrow> string list" where
  "csv_columns d = filter (\<lambda>c. \<not> starts_with ''_'' c) (columns d)"

text \<open>Two sheets for the literal scenarios. The first has a column \<open>Status\<close>, with
  one cell empty; the second has none.\<close>

definition text_pandas :: pandas where
  "text_pandas =
     \<lparr>to_numeric = (\<lambda>s. case py_float s of Inl _ \<Rightarrow> NaN | Inr v \<Rightarrow> v),
      num_str = (\<lambda>x. ''?'')\<rparr>"

definition bw_sheet :: frame where
  "bw_sheet =
     \<lparr>columns = [''Building No.#'', ''Unit No.#'', ''Status''],
      rows = [[(''Building No.#'', Str ''C1''), (''Unit No.#'', Str ''c1-002''),
               (''Status'', Num NaN)],
              [(''Building No.#'', Str ''C1''), (''Unit No.#'', Str ''C1-003''),
               (''Status'', Str ''Hold'')]]\<rparr>"

definition boho_sheet :: frame where
  "boho_sheet =
     \<lparr>columns = [''Building No#'', ''Unit No.#''],
      rows = [[(''Building No#'', Str ''B2''), (''Unit No.#'', Str ''B2-11'')]]\<rparr>"

text \<open>The unified table of the two sheets.\<close>

definition sheet_units :: frame where
  "sheet_units =
     \<lparr>columns = [''project'', ''building'', ''unit_no'', ''status'', ''_unit_upper'',
                 ''_building_upper''],
      rows = [[(''project'', Str ''Boardwalk''), (''building'', Str ''C1''),
               (''unit_no'', Str ''c1-002''), (''status'', Str ''Available''),
               (''_unit_upper'', Str ''C1-002''), (''_building_upper'', Str ''C1'')],
              [(''project'', Str ''Boardwalk''), (''building'', Str ''C1''),
               (''unit_no'', Str ''C1-003''), (''status'', Str ''Hold''),
               (''_unit_upper'', Str ''C1-003''), (''_building_upper'', Str ''C1'')],
              [(''project'', Str ''BOHO''), (''building'', Str ''B2''),
               (''unit_no'', Str ''B2-11''), (''status'', Num NaN),
               (''_unit_upper'', Str ''B2-11''), (''_building_upper'', Str ''B2'')]]\<rparr>"

definition no_sidebar :: sidebar where
  "no_sidebar = \<lparr>ui_project = [], ui_status = [], ui_bedrooms = [], ui_min_price = [],
     ui_max_price = [], ui_min_area = [], ui_max_area = []\<rparr>"

text \<open>The cell of a row in a column of its frame; NaN for a column the frame does not
  have.\<close>

definition cell_view :: "frame \<Rightarrow> row \<Rightarrow> string \<Rightarrow> cell" where
  "cell_view d r k = (if k \<in> set (columns d) then cell_of r k else Num NaN)"

text \<open>Frame \<open>d'\<close> has the columns of \<open>d\<close> and as many rows, and row by row its status is
  \<open>fs\<close> of the status in \<open>d\<close> and its project is \<open>fp\<close> of the project in \<open>d\<close>.\<close>

definition follows :: "(cell \<Rightarrow> cell) \<Rightarrow> (cell \<Rightarrow> cell) \<Rightarrow> frame \<Rightarrow> frame \<Rightarrow> bool" where
  "follows fs fp d d' =
     (columns d' = columns d \<and>
      list_all2 (\<lambda>r r'. cell_view d' r' ''status'' = fs (cell_view d r ''status'') \<and>
                        cell_view d' r' ''project'' = fp (cell_view d r ''project''))
        (rows d) (rows d'))"

text \<open>What the normalizer makes of the status of a source record: with a column
  \<open>Status\<close> in the sheet, a status that is present, and \<open>Available\<close> where the cell of
  the sheet was empty; without the column, a missing status.\<close>

definition status_from :: "frame \<Rightarrow> row \<Rightarrow> cell \<Rightarrow> bool" where
  "status_from raw r0 s =
     (if ''Status'' \<in> set (columns raw)
      then \<not> isna s \<and> (cell_of r0 ''Status'' = Num NaN \<longrightarrow> s = Str ''Available'')
      else s = Num NaN)"

text \<open>The cells of a column, from the first row to the last.\<close>

definition column_cells :: "string \<Rightarrow> frame \<Rightarrow> cell list" where
  "column_cells c d = map (\<lambda>r. cell_of r c) (rows d)"

section \<open>The query parser on concrete queries\<close>

text \<open>
  Claim C1 (no exception crosses the boundary of \<open>parse_query\<close>). The code breaks it:
  the price patterns accept any run of digits, dots and commas after the lead-in, and
  \<open>float\<close> is called on the run without a guard. A lead-in followed by a lone dot, and
  a price written with dots as thousands separators, both raise \<open>ValueError\<close>.
\<close>

theorem parse_query_raises:
  "parse_query ''under .'' = Inl ValueError \<and> parse_query ''over 1.500.000'' = Inl ValueError"
  by code_simp

text \<open>
  Claim C2 (\<open>parse_query("Boardwalk C1-002")\<close> has a project, a building and a unit and
  nothing else). The code breaks it: the digits \<open>002\<close> of the unit code stand between a
  hyphen and the end of the text, so the bare-number rule reads them as the exact area 2.
\<close>

theorem parse_query_boardwalk_unit:
  "parse_query ''Boardwalk C1-002'' =
     Inr \<lparr>project = Some [''Boardwalk''], status = None, bedrooms = None,
          max_price = None, min_price = None, min_area = None, max_area = None,
          exact_area = Some (Fin 2), building = Some ''C1'', unit_no = Some ''C1-002''\<rparr>"
  by code_simp

section \<open>The filter engine selects rows\<close>

lemma bind_err_Inr: "bind_err x k = Inr y \<longleftrightarrow> (\<exists>v. x = Inr v \<and> k v = Inr y)"
  by (cases x) (simp_all add: bind_err_def)

lemma all_ok_select:
  "all_ok (map q xs) = Inr bs \<Longrightarrow> map fst (filter snd (zip xs bs)) = filter (\<lambda>x. q x = Inr True) xs"
proof (induction xs arbitrary: bs)
  case Nil
  then show ?case by simp
next
  case (Cons x xs)
  then show ?case
    by (auto split: sum.splits)
qed

lemma keep_Inr:
  assumes "keep c p d = Inr d'"
  shows "d' = d\<lparr>rows := filter (\<lambda>r. p (cell_of r c) = Inr True) (rows d)\<rparr>"
  using assms
  by (auto simp: keep_def bind_err_Inr select_rows_def all_ok_select split: if_splits)

lemma if_in_Inr:
  assumes "if_in key (\<lambda>v. keep c (p v)) e = Inr e'"
  shows "e' = e\<lparr>var_out := (var_out e)\<lparr>rows := filter (asks (key (var_f e)) p c) (rows (var_out e))\<rparr>\<rparr>"
proof (cases "key (var_f e)")
  case None
  with assms show ?thesis by (simp add: if_in_def asks_def)
next
  case (Some v)
  with assms obtain d where "keep c (p v) (var_out e) = Inr d" "e' = e\<lparr>var_out := d\<rparr>"
    by (auto simp: if_in_def assign_out_def bind_err_Inr)
  moreover have "asks (Some v) p c = (\<lambda>r. p v (cell_of r c) = Inr True)"
    by (rule ext) (simp add: asks_def)
  ultimately show ?thesis using Some by (auto dest!: keep_Inr)
qed

lemma narrows_if_in: "narrows (\<lambda>i. asks (key i) p c) (if_in key (\<lambda>v. keep c (p v)))"
  unfolding narrows_def using if_in_Inr by blast

lemma exec_narrows:
  "list_all2 narrows ts sts \<Longrightarrow> exec sts e = Inr e' \<Longrightarrow>
     e' = e\<lparr>var_out := (var_out e)\<lparr>rows := filter (\<lambda>r. list_all (\<lambda>t. t (var_f e) r) ts) (rows (var_out e))\<rparr>\<rparr>"
proof (induction ts sts arbitrary: e rule: list_all2_induct)
  case Nil
  then show ?case by simp
next
  case (Cons t ts st sts)
  from Cons.prems obtain e1 where e1: "st e = Inr e1" "exec sts e1 = Inr e'"
    by (auto simp: bind_err_Inr)
  from Cons.hyps(1) e1(1) have s1: "e1 = e\<lparr>var_out := (var_out e)\<lparr>rows := filter (t (var_f e)) (rows (var_out e))\<rparr>\<rparr>"
    by (simp add: narrows_def)
  from Cons.IH[OF e1(2)] s1 show ?case
    by (simp add: conj_commute)
qed

lemma filter_stmts_narrow: "list_all2 narrows row_tests filter_stmts"
  unfolding row_tests_def filter_stmts_def
  by (simp add: narrows_if_in)

lemma apply_filters_env_Inr:
  assumes "apply_filters_env d i = Inr e"
  shows "e = \<lparr>var_df = d, var_f = i, var_out = d\<lparr>rows := filter (passes i) (rows d)\<rparr>\<rparr>"
proof -
  have "passes i = (\<lambda>r. list_all (\<lambda>t. t i r) row_tests)"
    by (rule ext) (simp add: passes_def)
  with exec_narrows[OF filter_stmts_narrow assms[unfolded apply_filters_env_def]]
  show ?thesis by simp
qed

lemma apply_filters_Inr:
  assumes "apply_filters d i = Inr d'"
  shows "d' = d\<lparr>rows := filter (passes i) (rows d)\<rparr>"
  using assms by (auto simp: apply_filters_def bind_err_Inr dest!: apply_filters_env_Inr)

lemma part_of_asks: "part_of x y \<Longrightarrow> asks y p c r \<Longrightarrow> asks x p c r"
  by (cases x) (auto simp: part_of_def asks_def)

lemma sub_intent_passes: "sub_intent a b \<Longrightarrow> passes b r \<Longrightarrow> passes a r"
  unfolding sub_intent_def passes_def row_tests_def
  by (simp) (blast intro: part_of_asks)


lemma passes_min_price_only:
  "passes (empty_intent\<lparr>min_price := Some b\<rparr>) r \<longleftrightarrow> ge_num b (fillna (Num (Fin 0)) (cell_of r ''price'')) = Inr True"
  by (simp add: passes_def row_tests_def asks_def empty_intent_def)

lemma passes_max_price_only:
  "passes (empty_intent\<lparr>max_price := Some b\<rparr>) r \<longleftrightarrow> le_num b (fillna (Num (Fin 0)) (cell_of r ''price'')) = Inr True"
  by (simp add: passes_def row_tests_def asks_def empty_intent_def)

lemma passes_min_area_only:
  "passes (empty_intent\<lparr>min_area := Some b\<rparr>) r \<longleftrightarrow> ge_num b (fillna (Num (Fin 0)) (cell_of r ''selling_area'')) = Inr True"
  by (simp add: passes_def row_tests_def asks_def empty_intent_def)

lemma passes_max_area_only:
  "passes (empty_intent\<lparr>max_area := Some b\<rparr>) r \<longleftrightarrow> le_num b (fillna (Num (Fin 0)) (cell_of r ''selling_area'')) = Inr True"
  by (simp add: passes_def row_tests_def asks_def empty_intent_def)

lemma passes_min_price: "passes i r \<Longrightarrow> min_price i = Some b \<Longrightarrow> ge_num b (fillna (Num (Fin 0)) (cell_of r ''price'')) = Inr True"
  by (simp add: passes_def row_tests_def asks_def)

lemma passes_min_area: "passes i r \<Longrightarrow> min_area i = Some b \<Longrightarrow> ge_num b (fillna (Num (Fin 0)) (cell_of r ''selling_area'')) = Inr True"
  by (simp add: passes_def row_tests_def asks_def)

lemma fle_one_not_zero: "fle (Fin 1) b \<Longrightarrow> \<not> fge (Fin 0) b"
  by (cases b) (simp_all add: fge_def)

lemma passes_empty: "passes empty_intent r"
  by (simp add: passes_def row_tests_def asks_def empty_intent_def)

lemma apply_filters_empty: "apply_filters t empty_intent = Inr t"
  by (simp add: apply_filters_def apply_filters_env_def filter_stmts_def if_in_def bind_err_def empty_intent_def)

lemma two_units_min_price:
  "apply_filters two_units (empty_intent\<lparr>min_price := Some (Fin 1)\<rparr>) = Inr (two_units\<lparr>rows := [unit_b]\<rparr>)"
  by code_simp

lemma two_units_max_price:
  "apply_filters two_units (empty_intent\<lparr>max_price := Some (Fin 5)\<rparr>) = Inr (two_units\<lparr>rows := [unit_a]\<rparr>)"
  by code_simp

lemma unit_a_absent:
  "unit_a \<in> set (rows two_units) \<and> isna (cell_of unit_a ''price'') \<and> isna (cell_of unit_a ''selling_area'')"
  by code_simp

text \<open>
  Claim C7, as amended (absent counts as zero in the comparisons). A record of the table
  whose price is missing is compared as if its price were 0. It is dropped by every
  intent whose \<open>min_price\<close> is at least 1; under an intent with only a \<open>min_price\<close> bound
  it is kept exactly when 0 is at least the bound, and under an intent with only a
  \<open>max_price\<close> bound it is kept exactly when 0 is at most the bound, so it passes every
  \<open>max_price\<close> bound that is not negative. The same holds for a missing selling area and
  the area bounds. For the two records of the scenario, \<open>{min_price: 1}\<close> yields the
  second record only.
\<close>

theorem absent_counts_as_zero:
  assumes "r \<in> set (rows t)"
  shows "(isna (cell_of r ''price'') \<longrightarrow>
           (apply_filters t i = Inr t' \<and> min_price i = Some b \<and> fle (Fin 1) b \<longrightarrow> r \<notin> set (rows t')) \<and>
           (apply_filters t (empty_intent\<lparr>min_price := Some b\<rparr>) = Inr t' \<longrightarrow>
              (r \<in> set (rows t') \<longleftrightarrow> fge (Fin 0) b)) \<and>
           (apply_filters t (empty_intent\<lparr>max_price := Some b\<rparr>) = Inr t' \<longrightarrow>
              (r \<in> set (rows t') \<longleftrightarrow> fle (Fin 0) b))) \<and>
         (isna (cell_of r ''selling_area'') \<longrightarrow>
           (apply_filters t i = Inr t' \<and> min_area i = Some b \<and> fle (Fin 1) b \<longrightarrow> r \<notin> set (rows t')) \<and>
           (apply_filters t (empty_intent\<lparr>min_area := Some b\<rparr>) = Inr t' \<longrightarrow>
              (r \<in> set (rows t') \<longleftrightarrow> fge (Fin 0) b)) \<and>
           (apply_filters t (empty_intent\<lparr>max_area := Some b\<rparr>) = Inr t' \<longrightarrow>
              (r \<in> set (rows t') \<longleftrightarrow> fle (Fin 0) b))) \<and>
         apply_filters two_units (empty_intent\<lparr>min_price := Some (Fin 1)\<rparr>) =
           Inr (two_units\<lparr>rows := [unit_b]\<rparr>)"
proof -
  have zero: "isna c \<Longrightarrow> fillna (Num (Fin 0)) c = Num (Fin 0)" for c
    by (simp add: fillna_def)
  have ge: "ge_num b (Num (Fin 0)) = Inr True \<longleftrightarrow> fge (Fin 0) b"
    by (simp add: ge_num_def)
  have le: "le_num b (Num (Fin 0)) = Inr True \<longleftrightarrow> fle (Fin 0) b"
    by (simp add: le_num_def)
  have sel: "apply_filters t j = Inr t' \<Longrightarrow> r \<in> set (rows t') \<longleftrightarrow> passes j r" for j
    using assms by (auto dest!: apply_filters_Inr)
  have price_general: "r \<notin> set (rows t')"
    if "isna (cell_of r ''price'')" "apply_filters t i = Inr t'" "min_price i = Some b" "fle (Fin 1) b"
  proof
    assume "r \<in> set (rows t')"
    with that(2) have "passes i r" by (simp add: sel)
    from passes_min_price[OF this that(3)] that(1) have "fge (Fin 0) b" by (simp add: zero ge)
    with fle_one_not_zero[OF that(4)] show False by simp
  qed
  have area_general: "r \<notin> set (rows t')"
    if "isna (cell_of r ''selling_area'')" "apply_filters t i = Inr t'" "min_area i = Some b" "fle (Fin 1) b"
  proof
    assume "r \<in> set (rows t')"
    with that(2) have "passes i r" by (simp add: sel)
    from passes_min_area[OF this that(3)] that(1) have "fge (Fin 0) b" by (simp add: zero ge)
    with fle_one_not_zero[OF that(4)] show False by simp
  qed
  have price_min: "r \<in> set (rows t') \<longleftrightarrow> fge (Fin 0) b"
    if "isna (cell_of r ''price'')" "apply_filters t (empty_intent\<lparr>min_price := Some b\<rparr>) = Inr t'"
    using that by (simp add: sel passes_min_price_only zero ge)
  have price_max: "r \<in> set (rows t') \<longleftrightarrow> fle (Fin 0) b"
    if "isna (cell_of r ''price'')" "apply_filters t (empty_intent\<lparr>max_price := Some b\<rparr>) = Inr t'"
    using that by (simp add: sel passes_max_price_only zero le)
  have area_min: "r \<in> set (rows t') \<longleftrightarrow> fge (Fin 0) b"
    if "isna (cell_of r ''selling_area'')" "apply_filters t (empty_intent\<lparr>min_area := Some b\<rparr>) = Inr t'"
    using that by (simp add: sel passes_min_area_only zero ge)
  have area_max: "r \<in> set (rows t') \<longleftrightarrow> fle (Fin 0) b"
    if "isna (cell_of r ''selling_area'')" "apply_filters t (empty_intent\<lparr>max_area := Some b\<rparr>) = Inr t'"
    using that by (simp add: sel passes_max_area_only zero le)
  show ?thesis
    using price_general area_general price_min price_max area_min area_max
      two_units_min_price
    by blast
qed

theorem absent_counts_as_zero_witness:
  "unit_a \<in> set (rows two_units) \<and> isna (cell_of unit_a ''price'') \<and>
   apply_filters two_units (empty_intent\<lparr>min_price := Some (Fin 1)\<rparr>) = Inr (two_units\<lparr>rows := [unit_b]\<rparr>) \<and>
   fle (Fin 1) (Fin 1) \<and> unit_a \<notin> set (rows (two_units\<lparr>rows := [unit_b]\<rparr>)) \<and>
   apply_filters two_units (empty_intent\<lparr>max_price := Some (Fin 5)\<rparr>) = Inr (two_units\<lparr>rows := [unit_a]\<rparr>) \<and>
   fle (Fin 0) (Fin 5) \<and> unit_a \<in> set (rows (two_units\<lparr>rows := [unit_a]\<rparr>))"
proof -
  have a: "unit_a \<in> set (rows two_units)" and p: "isna (cell_of unit_a ''price'')"
    using unit_a_absent by simp_all
  have lo: "min_price (empty_intent\<lparr>min_price := Some (Fin 1)\<rparr>) = Some (Fin 1)" by simp
  from absent_counts_as_zero[OF a, of "empty_intent\<lparr>min_price := Some (Fin 1)\<rparr>"
      "two_units\<lparr>rows := [unit_b]\<rparr>" "Fin 1"] p two_units_min_price lo
  have "unit_a \<notin> set (rows (two_units\<lparr>rows := [unit_b]\<rparr>))" by simp
  moreover from absent_counts_as_zero[OF a, of _ "two_units\<lparr>rows := [unit_a]\<rparr>" "Fin 5"]
      p two_units_max_price
  have "unit_a \<in> set (rows (two_units\<lparr>rows := [unit_a]\<rparr>))" by simp
  ultimately show ?thesis using a p two_units_min_price two_units_max_price by simp
qed

text \<open>
  Claim C7 as stated says that a record with a missing price passes every \<open>max_price\<close>
  constraint. It does not pass a negative one: 0 is not at most -1.
\<close>

theorem absent_price_fails_negative_max_price:
  "unit_a \<in> set (rows two_units) \<and> isna (cell_of unit_a ''price'') \<and>
   apply_filters two_units (empty_intent\<lparr>max_price := Some (Fin (- 1))\<rparr>) = Inr (two_units\<lparr>rows := []\<rparr>)"
  by code_simp

text \<open>
  Claim C8 (the filter narrows monotonically). The result of \<open>apply_filters\<close> is a
  selection of the rows of the table, in their order; the intent with no constraint
  returns the table; and if every constraint of intent \<open>a\<close> is a constraint of intent
  \<open>b\<close>, the result for \<open>b\<close> is a selection of the rows of the result for \<open>a\<close>, so it
  has at most as many rows.
\<close>

theorem apply_filters_monotone:
  assumes "sub_intent a b" and "apply_filters t a = Inr ta" and "apply_filters t b = Inr tb"
  shows "subseq (rows ta) (rows t) \<and> subseq (rows tb) (rows ta) \<and>
         length (rows tb) \<le> length (rows ta) \<and> apply_filters t empty_intent = Inr t"
proof -
  have ra: "rows ta = filter (passes a) (rows t)" and rb: "rows tb = filter (passes b) (rows t)"
    using assms(2,3) by (auto dest!: apply_filters_Inr)
  have "filter (passes b) (rows t) = filter (passes b) (filter (passes a) (rows t))"
    using sub_intent_passes[OF assms(1)] by (auto intro: filter_cong)
  with ra rb have "rows tb = filter (passes b) (rows ta)" by simp
  then have "subseq (rows tb) (rows ta)" by simp
  moreover from this have "length (rows tb) \<le> length (rows ta)"
    by (rule list_emb_length)
  moreover have "subseq (rows ta) (rows t)" using ra by simp
  ultimately show ?thesis by (simp add: apply_filters_empty)
qed

theorem apply_filters_monotone_witness:
  "sub_intent empty_intent (empty_intent\<lparr>min_price := Some (Fin 1)\<rparr>) \<and>
   apply_filters two_units empty_intent = Inr two_units \<and>
   apply_filters two_units (empty_intent\<lparr>min_price := Some (Fin 1)\<rparr>) = Inr (two_units\<lparr>rows := [unit_b]\<rparr>) \<and>
   subseq (rows (two_units\<lparr>rows := [unit_b]\<rparr>)) (rows two_units) \<and>
   length (rows (two_units\<lparr>rows := [unit_b]\<rparr>)) \<le> length (rows two_units)"
proof -
  have s: "sub_intent empty_intent (empty_intent\<lparr>min_price := Some (Fin 1)\<rparr>)"
    by (simp add: sub_intent_def part_of_def empty_intent_def)
  have a: "apply_filters two_units empty_intent = Inr two_units"
    by (rule apply_filters_empty)
  from apply_filters_monotone[OF s a two_units_min_price] s a two_units_min_price
  show ?thesis by simp
qed

text \<open>
  Claim C10 (frame property of the filter engine). When \<open>apply_filters\<close> returns, its
  two arguments are what they were at the call, the result has the columns of the
  table, and the rows of the result are rows of the table, unchanged and in their order.
\<close>

theorem apply_filters_frame:
  assumes "apply_filters_env d i = Inr e"
  shows "var_df e = d \<and> var_f e = i \<and> apply_filters d i = Inr (var_out e) \<and>
         columns (var_out e) = columns d \<and> subseq (rows (var_out e)) (rows d) \<and>
         set (rows (var_out e)) \<subseteq> set (rows d)"
  using apply_filters_env_Inr[OF assms] assms
  by (auto simp: apply_filters_def bind_err_def)

theorem apply_filters_frame_witness:
  "apply_filters_env two_units (empty_intent\<lparr>min_price := Some (Fin 1)\<rparr>) =
     Inr \<lparr>var_df = two_units, var_f = empty_intent\<lparr>min_price := Some (Fin 1)\<rparr>,
          var_out = two_units\<lparr>rows := [unit_b]\<rparr>\<rparr> \<and>
   columns (two_units\<lparr>rows := [unit_b]\<rparr>) = columns two_units \<and>
   set (rows (two_units\<lparr>rows := [unit_b]\<rparr>)) \<subseteq> set (rows two_units)"
proof -
  have e: "apply_filters_env two_units (empty_intent\<lparr>min_price := Some (Fin 1)\<rparr>) =
     Inr \<lparr>var_df = two_units, var_f = empty_intent\<lparr>min_price := Some (Fin 1)\<rparr>,
          var_out = two_units\<lparr>rows := [unit_b]\<rparr>\<rparr>"
    by code_simp
  from apply_filters_frame[OF e] e show ?thesis by simp
qed

end
